theory Spec2Isabelle
  imports Main
begin

section \<open>Sources\<close>

text \<open>
  The repository holds two versions of \<open>irc.c\<close>. The later one validates its
  parameters, sends the handshake in one write and has \<open>irc_getNames\<close>,
  \<open>irc_invite\<close> and the message parser \<open>getNextMessage\<close>; it is the one modelled
  here under the names of the source. The earlier one, \<open>src/irc/irc.c\<close>, has the same
  \<open>irc_joinRoom\<close>, \<open>irc_leaveRoom\<close>, \<open>irc_getAvailableRoom\<close> and \<open>irc_createRoom\<close>;
  where it differs (\<open>irc_connect\<close>, \<open>irc_toggleRoomStatus\<close>) its function is modelled
  too, with the suffix \<open>_early\<close>.
\<close>

section \<open>C library primitives used by the IRC layer\<close>

text \<open>
  A C string is modelled by the list of its characters before the terminating NUL.
  A pointer into a string is an index; \<open>None\<close> stands for the NULL pointer.
  Buffer capacities (\<open>COMMAND_SIZE\<close>, \<open>MAX_MESSAGE_SIZE\<close>, the sizes handed to
  \<open>malloc\<close>) are not part of the model: every buffer is taken to hold what is
  written to it.
\<close>

definition CRLF :: string where
  "CRLF = [CHR 0x0D, CHR 0x0A]"

text \<open>\<open>strchr(s, c)\<close>: position of the first \<open>c\<close> in \<open>s\<close>, or NULL.\<close>

fun strchr :: "string \<Rightarrow> char \<Rightarrow> nat option" where
  "strchr [] c = None"
| "strchr (x # xs) c = (if x = c then Some 0 else map_option Suc (strchr xs c))"

text \<open>\<open>strstr(haystack, needle)\<close>: position of the first occurrence, or NULL.\<close>

fun strstr :: "string \<Rightarrow> string \<Rightarrow> nat option" where
  "strstr [] needle = (if needle = [] then Some 0 else None)"
| "strstr (x # xs) needle =
     (if take (length needle) (x # xs) = needle then Some 0
      else map_option Suc (strstr xs needle))"

text \<open>The decimal digits of a natural number, as \<open>printf\<close> writes them.\<close>

fun digits :: "nat \<Rightarrow> string" where
  "digits n =
     (if n < 10 then [''0123456789'' ! n]
      else digits (n div 10) @ [''0123456789'' ! (n mod 10)])"

declare digits.simps [simp del]

text \<open>
  The conversion \<open>%03d\<close>: sign, then zeros up to a total width of three, then the
  digits. Numbers wider than three characters are written in full.
\<close>

definition fmt_03d :: "int \<Rightarrow> string" where
  "fmt_03d n =
     (let sign = (if n < 0 then ''-'' else '''');
          ds = digits (nat \<bar>n\<bar>)
      in sign @ replicate (3 - (length sign + length ds)) (CHR ''0'') @ ds)"

section \<open>Constants\<close>

text \<open>The error codes that \<open>src/irc/irc.c\<close> defines itself.\<close>

definition MESSAGE_TOO_LONG :: int where "MESSAGE_TOO_LONG = - 21"
definition PARAMETER_OUT_OF_RANGE :: int where "PARAMETER_OUT_OF_RANGE = - 23"
definition LEAVE_ROOM_ERROR :: int where "LEAVE_ROOM_ERROR = - 24"

text \<open>
  The remaining constants come from headers (\<open>irc.h\<close>, \<open>errors.h\<close>, \<open>network.h\<close>)
  that are not part of the sources at hand; they are parameters of the model.
\<close>

record config =
  NO_ERROR :: int
  TOGGLE_ROOM_STATUS_ERROR :: int
  IRC_SERVER :: string
  IRC_PORT :: int
  LOBBY_CHANNEL :: string
  ROOM_PREFIX :: string

text \<open>
  Modelled from the spec: the macro \<open>ROOM_FORMAT\<close> of the missing \<open>irc.h\<close> is the
  configured prefix followed by \<open>%03d\<close>, the room number zero-padded to three digits
  (\<open>#cruce-gameXXX\<close> in the comment of \<open>irc_joinRoom\<close>). With it,
  \<open>sprintf(roomName, ROOM_FORMAT, roomNumber)\<close> leaves in \<open>roomName\<close>:
\<close>

definition sprintf_ROOM_FORMAT :: "config \<Rightarrow> int \<Rightarrow> string" where
  "sprintf_ROOM_FORMAT cfg roomNumber = ROOM_PREFIX cfg @ fmt_03d roomNumber"

section \<open>The transport and the session state\<close>

text \<open>
  The network layer is external. Every call to it is recorded in a trace, and what
  a call returns is a function of the calls made before it (and of its arguments):
  any deterministic server and socket can be written this way.
\<close>

datatype event =
    Connect string int
  | Send string
  | Read
  | ReadLine
  | Disconnect

record transport =
  connect_result :: "event list \<Rightarrow> string \<Rightarrow> int \<Rightarrow> int"
  send_result :: "event list \<Rightarrow> string \<Rightarrow> int"
  read_result :: "event list \<Rightarrow> int \<times> string"
  readLine_result :: "event list \<Rightarrow> string"
  disconnect_result :: "event list \<Rightarrow> int"

text \<open>
  The state of the program: the global \<open>currentRoom\<close> (\<open>-1\<close> when no room is
  joined) and the trace of transport calls.
\<close>

record session =
  currentRoom :: int
  trace :: "event list"

definition network_connect ::
  "transport \<Rightarrow> string \<Rightarrow> int \<Rightarrow> session \<Rightarrow> int \<times> session" where
  "network_connect env host port s =
     (connect_result env (trace s) host port,
      s\<lparr>trace := trace s @ [Connect host port]\<rparr>)"

text \<open>\<open>network_send(buffer, length)\<close> writes the first \<open>length\<close> bytes of the buffer.\<close>

definition network_send ::
  "transport \<Rightarrow> string \<Rightarrow> nat \<Rightarrow> session \<Rightarrow> int \<times> session" where
  "network_send env buffer len s =
     (send_result env (trace s) (take len buffer),
      s\<lparr>trace := trace s @ [Send (take len buffer)]\<rparr>)"

text \<open>\<open>network_read(buffer, size)\<close>: the return code and the string left in the buffer.\<close>

definition network_read :: "transport \<Rightarrow> session \<Rightarrow> (int \<times> string) \<times> session" where
  "network_read env s = (read_result env (trace s), s\<lparr>trace := trace s @ [Read]\<rparr>)"

definition network_readLine :: "transport \<Rightarrow> session \<Rightarrow> string \<times> session" where
  "network_readLine env s = (readLine_result env (trace s), s\<lparr>trace := trace s @ [ReadLine]\<rparr>)"

definition network_disconnect :: "transport \<Rightarrow> session \<Rightarrow> int \<times> session" where
  "network_disconnect env s =
     (disconnect_result env (trace s), s\<lparr>trace := trace s @ [Disconnect]\<rparr>)"

text \<open>
  Where the C code dereferences NULL, reads an uninitialised pointer or passes a
  negative length to \<open>strncpy\<close>, the outcome is \<open>UndefinedBehaviour\<close>.
\<close>

datatype 'a c_result = UndefinedBehaviour | Value 'a

section \<open>Session: connecting, disconnecting, lobby messages\<close>

definition irc_connect ::
  "config \<Rightarrow> transport \<Rightarrow> string \<Rightarrow> session \<Rightarrow> int \<times> session" where
  "irc_connect cfg env name s =
     (let nameSize = length name in
      if nameSize = 0 \<or> nameSize > 9 then (PARAMETER_OUT_OF_RANGE, s)
      else
        let (connectRet, s1) = network_connect env (IRC_SERVER cfg) (IRC_PORT cfg) s in
        if connectRet \<noteq> NO_ERROR cfg then (connectRet, s1)
        else
          let nickCommand = ''NICK '' @ name @ CRLF;
              userCommand = ''USER '' @ name @ '' 8 * :'' @ name @ CRLF;
              joinCommand = ''JOIN '' @ LOBBY_CHANNEL cfg @ CRLF;
              commandSequenceLength =
                8 + length nickCommand + length userCommand + length joinCommand;
              commandSequence = ''PASS *'' @ CRLF @ nickCommand @ userCommand @ joinCommand;
              (sendRet, s2) = network_send env commandSequence commandSequenceLength s1
          in if sendRet \<noteq> NO_ERROR cfg then (sendRet, s2) else (NO_ERROR cfg, s2))"

text \<open>
  The earlier \<open>irc_connect\<close> of \<open>src/irc/irc.c\<close>: no check of the name, four writes
  whose results are dropped.
\<close>

definition irc_connect_early ::
  "config \<Rightarrow> transport \<Rightarrow> string \<Rightarrow> session \<Rightarrow> int \<times> session" where
  "irc_connect_early cfg env name s =
     (let (connectRet, s1) = network_connect env (IRC_SERVER cfg) (IRC_PORT cfg) s in
      if connectRet \<noteq> NO_ERROR cfg then (connectRet, s1)
      else
        let nickCommand = ''NICK '' @ name @ CRLF;
            userCommand = ''USER '' @ name @ '' 8 * :'' @ name @ CRLF;
            joinCommand = ''JOIN '' @ LOBBY_CHANNEL cfg @ CRLF;
            (r1, s2) = network_send env (''PASS *'' @ CRLF) 8 s1;
            (r2, s3) = network_send env nickCommand (length nickCommand) s2;
            (r3, s4) = network_send env userCommand (length userCommand) s3;
            (r4, s5) = network_send env joinCommand (length joinCommand) s4
        in (NO_ERROR cfg, s5))"

definition irc_disconnect :: "config \<Rightarrow> transport \<Rightarrow> session \<Rightarrow> int \<times> session" where
  "irc_disconnect cfg env s =
     (let (sendRet, s1) = network_send env (''QUIT'' @ CRLF) 6 s in
      if sendRet \<noteq> NO_ERROR cfg then (sendRet, s1)
      else
        let (disconnRet, s2) = network_disconnect env s1 in
        if disconnRet \<noteq> NO_ERROR cfg then (disconnRet, s2) else (NO_ERROR cfg, s2))"

definition irc_sendLobbyMessage ::
  "config \<Rightarrow> transport \<Rightarrow> string \<Rightarrow> session \<Rightarrow> int \<times> session" where
  "irc_sendLobbyMessage cfg env message s =
     (if length message > 512 then (MESSAGE_TOO_LONG, s)
      else
        let lobbyMessageCommand =
              ''PRIVMSG '' @ LOBBY_CHANNEL cfg @ '' '' @ message @ CRLF
        in network_send env lobbyMessageCommand (length lobbyMessageCommand) s)"

section \<open>Rooms: \<open>irc_joinRoom\<close> and \<open>irc_leaveRoom\<close>\<close>

definition irc_joinRoom ::
  "config \<Rightarrow> transport \<Rightarrow> int \<Rightarrow> session \<Rightarrow> int \<times> session" where
  "irc_joinRoom cfg env roomNumber s =
     (if roomNumber < 0 \<or> roomNumber > 999 then (PARAMETER_OUT_OF_RANGE, s)
      else
        let roomName = sprintf_ROOM_FORMAT cfg roomNumber;
            joinCommand = ''JOIN '' @ roomName @ CRLF;
            (sendRet, s1) = network_send env joinCommand (length joinCommand) s
        in if sendRet \<noteq> NO_ERROR cfg then (sendRet, s1)
           else (NO_ERROR cfg, s1\<lparr>currentRoom := roomNumber\<rparr>))"

definition irc_leaveRoom :: "config \<Rightarrow> transport \<Rightarrow> session \<Rightarrow> int \<times> session" where
  "irc_leaveRoom cfg env s =
     (if currentRoom s < 0 then (LEAVE_ROOM_ERROR, s)
      else
        let roomName = sprintf_ROOM_FORMAT cfg (currentRoom s);
            partCommand = ''PART '' @ roomName @ CRLF;
            (sendRet, s1) = network_send env partCommand (length partCommand) s
        in if sendRet \<noteq> NO_ERROR cfg then (sendRet, s1)
           else (NO_ERROR cfg, s1\<lparr>currentRoom := - 1\<rparr>))"

section \<open>Rooms: status toggle, free-room scan, room creation\<close>

text \<open>
  \<open>irc_toggleRoomStatus\<close>, as the current \<open>irc.c\<close> has it: the topic is fetched, one
  response is read, and the topic is rewritten to the opposite status. The result of
  the second \<open>network_send\<close> is stored and never looked at.
\<close>

definition irc_toggleRoomStatus ::
  "config \<Rightarrow> transport \<Rightarrow> int \<Rightarrow> session \<Rightarrow> int \<times> session" where
  "irc_toggleRoomStatus cfg env roomNumber s =
     (if roomNumber < 0 \<or> roomNumber > 999 then (PARAMETER_OUT_OF_RANGE, s)
      else
        let roomName = sprintf_ROOM_FORMAT cfg roomNumber;
            fetchTopicCommand = ''TOPIC '' @ roomName @ CRLF;
            (sendRet, s1) = network_send env fetchTopicCommand (length fetchTopicCommand) s
        in if sendRet \<noteq> NO_ERROR cfg then (sendRet, s1)
           else
             let ((readRet, recvBuffer), s2) = network_read env s1 in
             if readRet < 0 then (readRet, s2)
             else if strstr recvBuffer ''WAITING'' \<noteq> None then
               (let newTopicCommand = ''TOPIC '' @ roomName @ '' PLAYING'' @ CRLF;
                    (sendRet', s3) = network_send env newTopicCommand (length newTopicCommand) s2
                in (NO_ERROR cfg, s3))
             else if strstr recvBuffer ''PLAYING'' \<noteq> None then
               (let newTopicCommand = ''TOPIC '' @ roomName @ '' WAITING'' @ CRLF;
                    (sendRet', s3) = network_send env newTopicCommand (length newTopicCommand) s2
                in (NO_ERROR cfg, s3))
             else (TOGGLE_ROOM_STATUS_ERROR cfg, s2))"

text \<open>
  The earlier \<open>irc_toggleRoomStatus\<close> of \<open>src/irc/irc.c\<close>: it only classifies the
  response (0 no topic, 1 waiting, 2 playing, -1 otherwise) and sends nothing more.
\<close>

definition irc_toggleRoomStatus_early ::
  "config \<Rightarrow> transport \<Rightarrow> int \<Rightarrow> session \<Rightarrow> int \<times> session" where
  "irc_toggleRoomStatus_early cfg env roomNumber s =
     (let roomName = sprintf_ROOM_FORMAT cfg roomNumber;
          topicCommand = ''TOPIC '' @ roomName @ CRLF;
          (sendRet, s1) = network_send env topicCommand (length topicCommand) s
      in if sendRet \<noteq> NO_ERROR cfg then (sendRet, s1)
         else
           let ((readRet, recvBuffer), s2) = network_read env s1 in
           if readRet \<noteq> NO_ERROR cfg then (readRet, s2)
           else if strstr recvBuffer '':No topic is set'' \<noteq> None then (0, s2)
           else if strstr recvBuffer ''WAITING'' \<noteq> None then (1, s2)
           else if strstr recvBuffer ''PLAYING'' \<noteq> None then (2, s2)
           else (- 1, s2))"

text \<open>
  The loop of \<open>irc_getAvailableRoom\<close>, \<open>for (int i = 0; i <= 999; i++)\<close>, from the
  value \<open>i\<close> of its counter on. Both versions of the file have the same loop; it is
  written once, over the \<open>irc_toggleRoomStatus\<close> it calls.
\<close>

function getAvailableRoom_loop ::
  "(int \<Rightarrow> session \<Rightarrow> int \<times> session) \<Rightarrow> int \<Rightarrow> session \<Rightarrow> int \<times> session" where
  "getAvailableRoom_loop toggle i s =
     (if i \<le> 999 then
        (let (isUsed, s') = toggle i s in
         if isUsed = 0 then (i, s')
         else getAvailableRoom_loop toggle (i + 1) s')
      else (- 1, s))"
  by pat_completeness auto
termination
  by (relation "measure (\<lambda>(toggle, i, s). nat (1000 - i))") auto

declare getAvailableRoom_loop.simps [simp del]

definition irc_getAvailableRoom :: "config \<Rightarrow> transport \<Rightarrow> session \<Rightarrow> int \<times> session" where
  "irc_getAvailableRoom cfg env s = getAvailableRoom_loop (irc_toggleRoomStatus cfg env) 0 s"

definition irc_getAvailableRoom_early ::
  "config \<Rightarrow> transport \<Rightarrow> session \<Rightarrow> int \<times> session" where
  "irc_getAvailableRoom_early cfg env s =
     getAvailableRoom_loop (irc_toggleRoomStatus_early cfg env) 0 s"

definition irc_createRoom :: "config \<Rightarrow> transport \<Rightarrow> session \<Rightarrow> int \<times> session" where
  "irc_createRoom cfg env s =
     (let (roomNumber, s1) = irc_getAvailableRoom cfg env s in
      if roomNumber = - 1 then (- 1, s1)
      else if currentRoom s1 \<noteq> - 1 then (- 1, s1)
      else
        let roomName = sprintf_ROOM_FORMAT cfg roomNumber;
            joinCommand = ''JOIN '' @ roomName @ CRLF;
            topicCommand = ''TOPIC '' @ roomName @ '' '' @ ''WAITING'' @ CRLF;
            (sendRet, s2) = network_send env joinCommand (length joinCommand) s1
        in if sendRet \<noteq> NO_ERROR cfg then (sendRet, s2)
           else
             let (sendRet', s3) = network_send env topicCommand (length topicCommand) s2 in
             if sendRet' \<noteq> NO_ERROR cfg then (sendRet', s3)
             else (roomNumber, s3))"

section \<open>Lobby directory and invitations\<close>

text \<open>
  \<open>irc_getNames\<close> returns a \<open>char *\<close>: \<open>Value None\<close> is NULL, \<open>Value (Some names)\<close> a
  string. The result of \<open>strchr(buffer, ':')\<close> goes to \<open>strlen\<close> unchecked.
\<close>

definition irc_getNames ::
  "config \<Rightarrow> transport \<Rightarrow> int \<Rightarrow> session \<Rightarrow> string option c_result \<times> session" where
  "irc_getNames cfg env isRoom s =
     (if isRoom \<noteq> 0 \<and> currentRoom s = - 1 then (Value None, s)
      else
        let namesCommand =
              (if isRoom \<noteq> 0
               then ''NAMES '' @ sprintf_ROOM_FORMAT cfg (currentRoom s) @ CRLF
               else ''NAMES '' @ LOBBY_CHANNEL cfg @ CRLF);
            (sendRet, s1) = network_send env namesCommand (length namesCommand) s
        in if sendRet \<noteq> NO_ERROR cfg then (Value None, s1)
           else
             let ((readRet, buffer), s2) = network_read env s1 in
             if readRet < 0 then (Value None, s2)
             else
               (case strchr buffer (CHR '':'') of
                  None \<Rightarrow> (UndefinedBehaviour, s2)
                | Some namesListStart \<Rightarrow> (Value (Some (drop namesListStart buffer)), s2)))"

definition irc_invite ::
  "config \<Rightarrow> transport \<Rightarrow> string \<Rightarrow> session \<Rightarrow> int c_result \<times> session" where
  "irc_invite cfg env nickname s =
     (if currentRoom s = - 1 then (Value (- 1), s)
      else
        (case irc_getNames cfg env 0 s of
           (UndefinedBehaviour, s1) \<Rightarrow> (UndefinedBehaviour, s1)
         | (Value None, s1) \<Rightarrow> (Value (- 2), s1)
         | (Value (Some channelNames), s1) \<Rightarrow>
             if strstr channelNames nickname = None then (Value (- 3), s1)
             else
               let roomName = sprintf_ROOM_FORMAT cfg (currentRoom s1);
                   inviteCommand = ''INVITE '' @ roomName @ '' '' @ nickname @ CRLF;
                   (sendRet, s2) = network_send env inviteCommand (length inviteCommand) s1
               in if sendRet \<noteq> NO_ERROR cfg then (Value sendRet, s2)
                  else (Value 0, s2)))"

section \<open>Message parser\<close>

record IrcMessage =
  prefix :: string
  command :: string
  trailing :: string

text \<open>
  Lines 57 to 77 of \<open>getNextMessage\<close>. The pointer \<open>prefixEnd\<close> is an index into
  \<open>str\<close>, or \<open>None\<close> while it has not been assigned. \<open>strncpy\<close> takes its length as a
  \<open>size_t\<close>, so a negative length does not copy nothing: it overruns the buffer.
\<close>

definition getNextMessage_slices :: "string \<Rightarrow> int option \<Rightarrow> int \<Rightarrow> IrcMessage c_result" where
  "getNextMessage_slices str prefixEnd prefixLen =
     (case prefixEnd of
        None \<Rightarrow> UndefinedBehaviour
      | Some pe \<Rightarrow>
          (case strchr (drop (nat (pe + 2)) str) (CHR '' '') of
             None \<Rightarrow> UndefinedBehaviour
           | Some k \<Rightarrow>
               let trailingStart = pe + 2 + int k + 1;
                   trailingLen = int (length (drop (nat trailingStart) str)) - 1;
                   commandStart = pe + 2;
                   commandEnd = trailingStart - 2;
                   commandLen = commandEnd - commandStart + 1
               in if prefixLen < 0 \<or> commandLen < 0 \<or> trailingLen < 0 then UndefinedBehaviour
                  else Value
                    \<lparr>prefix = take (nat prefixLen) (drop 1 str),
                     command = take (nat commandLen) (drop (nat commandStart) str),
                     trailing = take (nat trailingLen) (drop (nat trailingStart) str)\<rparr>))"

text \<open>
  Lines 49 to 55: \<open>prefixEnd\<close> is assigned only when the line starts with a colon.
  \<open>strchr\<close> returning NULL there makes \<open>prefixEnd\<close> the pointer \<open>NULL - 1\<close>.
\<close>

definition parseLine :: "string \<Rightarrow> IrcMessage c_result" where
  "parseLine str =
     (if str \<noteq> [] \<and> hd str = CHR '':'' then
        (case strchr str (CHR '' '') of
           None \<Rightarrow> UndefinedBehaviour
         | Some sp \<Rightarrow>
             let prefixEnd = int sp - 1;
                 prefixLen = prefixEnd - 0 - 1
             in getNextMessage_slices str (Some prefixEnd) prefixLen)
      else getNextMessage_slices str None 0)"

definition getNextMessage ::
  "transport \<Rightarrow> session \<Rightarrow> IrcMessage c_result \<times> session" where
  "getNextMessage env s = (let (str, s1) = network_readLine env s in (parseLine str, s1))"

section \<open>Notions of the specification\<close>

text \<open>
  The names list as the specification words it: everything after the first colon
  of the response, as a list of space-separated tokens. This definition follows the
  specification, not the code; \<open>irc_getNames\<close> and \<open>irc_invite\<close> are compared with it.
\<close>

fun space_separated :: "string \<Rightarrow> string \<Rightarrow> string list" where
  "space_separated cur [] = (if cur = [] then [] else [cur])"
| "space_separated cur (x # xs) =
     (if x = CHR '' '' then
        (if cur = [] then space_separated [] xs else cur # space_separated [] xs)
      else space_separated (cur @ [x]) xs)"

definition spec_names_list :: "string \<Rightarrow> string list option" where
  "spec_names_list response =
     (case strchr response (CHR '':'') of
        None \<Rightarrow> None
      | Some i \<Rightarrow> Some (space_separated [] (drop (Suc i) response)))"

text \<open>
  The scan of \<open>irc_getAvailableRoom\<close> seen from outside: \<open>state_before toggle s k\<close> is
  the state in which room \<open>k\<close> is probed when the scan starts in \<open>s\<close> and reaches it,
  and \<open>probe toggle s j\<close> is what \<open>irc_toggleRoomStatus\<close> returns for room \<open>j\<close> then.
\<close>

fun state_before ::
  "(int \<Rightarrow> session \<Rightarrow> int \<times> session) \<Rightarrow> session \<Rightarrow> nat \<Rightarrow> session" where
  "state_before toggle s 0 = s"
| "state_before toggle s (Suc k) = snd (toggle (int k) (state_before toggle s k))"

definition probe :: "(int \<Rightarrow> session \<Rightarrow> int \<times> session) \<Rightarrow> session \<Rightarrow> int \<Rightarrow> int" where
  "probe toggle s j = fst (toggle j (state_before toggle s (nat j)))"

section \<open>Concrete configuration, transports and replies\<close>

text \<open>
  A configuration with the usual values, and transports whose answers are fixed:
  every \<open>network_send\<close> returns \<open>sendRet\<close>, every \<open>network_read\<close> returns \<open>readRet\<close>
  and leaves \<open>reply\<close> in the buffer, every \<open>network_readLine\<close> delivers \<open>reply\<close>.
\<close>

definition example_config :: config where
  "example_config =
     \<lparr>NO_ERROR = 0, TOGGLE_ROOM_STATUS_ERROR = - 1,
      IRC_SERVER = ''irc.freenode.net'', IRC_PORT = 6667,
      LOBBY_CHANNEL = ''#cruce-lobby'', ROOM_PREFIX = ''#cruce-game''\<rparr>"

definition scripted_transport :: "int \<Rightarrow> int \<Rightarrow> string \<Rightarrow> transport" where
  "scripted_transport sendRet readRet reply =
     \<lparr>connect_result = (\<lambda>h host port. 0),
      send_result = (\<lambda>h payload. sendRet),
      read_result = (\<lambda>h. (readRet, reply)),
      readLine_result = (\<lambda>h. reply),
      disconnect_result = (\<lambda>h. 0)\<rparr>"

definition session_in :: "int \<Rightarrow> session" where
  "session_in room = \<lparr>currentRoom = room, trace = []\<rparr>"

definition no_topic_reply :: string where
  "no_topic_reply = '':irc.example.net 331 alice #cruce-game000 :No topic is set'' @ CRLF"

definition waiting_reply :: string where
  "waiting_reply = '':irc.example.net 332 alice #cruce-game000 :WAITING'' @ CRLF"

definition lobby_names_reply :: string where
  "lobby_names_reply = ''Users on #cruce-lobby: alice bobby''"

definition reply_without_colon :: string where
  "reply_without_colon = ''366 alice #cruce-lobby End of NAMES list''"

section \<open>Facts about the primitives\<close>

lemma strchr_None_iff: "strchr str c = None \<longleftrightarrow> c \<notin> set str"
  by (induction str) auto

lemma strchr_Some_first:
  "strchr str c = Some i \<Longrightarrow> i < length str \<and> str ! i = c \<and> c \<notin> set (take i str)"
  by (induction str arbitrary: i) (auto split: if_splits)

text \<open>\<open>strstr\<close> finds the needle exactly when it occurs somewhere in the haystack.\<close>

lemma strstr_found_iff:
  "strstr hay needle \<noteq> None \<longleftrightarrow> (\<exists>pre post. hay = pre @ needle @ post)"
proof
  assume "strstr hay needle \<noteq> None"
  then show "\<exists>pre post. hay = pre @ needle @ post"
  proof (induction hay)
    case Nil
    then show ?case by (simp split: if_splits)
  next
    case (Cons x xs)
    show ?case
    proof (cases "take (length needle) (x # xs) = needle")
      case True
      then have "x # xs = [] @ needle @ drop (length needle) (x # xs)"
        by (metis append_Nil append_take_drop_id)
      then show ?thesis by blast
    next
      case False
      with Cons.prems have "strstr xs needle \<noteq> None" by simp
      with Cons.IH obtain pre post where "xs = pre @ needle @ post" by blast
      then have "x # xs = (x # pre) @ needle @ post" by simp
      then show ?thesis by blast
    qed
  qed
next
  assume "\<exists>pre post. hay = pre @ needle @ post"
  then obtain pre post where "hay = pre @ needle @ post" by blast
  then show "strstr hay needle \<noteq> None"
  proof (induction pre arbitrary: hay)
    case Nil
    then have here: "take (length needle) hay = needle" by simp
    show ?case
    proof (cases hay)
      case Nil
      with here show ?thesis by simp
    next
      case (Cons a list)
      with here show ?thesis by simp
    qed
  next
    case (Cons p ps)
    then have "strstr (ps @ needle @ post) needle \<noteq> None" by simp
    with Cons.prems show ?case by simp
  qed
qed

lemma fmt_03d_examples:
  "fmt_03d 0 = ''000''" "fmt_03d 3 = ''003''" "fmt_03d 5 = ''005''" "fmt_03d 7 = ''007''"
  by code_simp+

lemma no_topic_reply_markers:
  "strstr no_topic_reply ''WAITING'' = None"
  "strstr no_topic_reply ''PLAYING'' = None"
  "strstr no_topic_reply '':No topic is set'' \<noteq> None"
  by (simp_all add: no_topic_reply_def CRLF_def)

lemma waiting_reply_markers:
  "strstr waiting_reply ''WAITING'' \<noteq> None"
  "strstr waiting_reply '':No topic is set'' = None"
  by (simp_all add: waiting_reply_def CRLF_def)

section \<open>Connecting\<close>

text \<open>
  C6. \<open>irc_connect\<close> checks the length of the name first: for the empty name and for
  a name of more than nine characters it returns \<open>PARAMETER_OUT_OF_RANGE\<close> and leaves
  the state, trace included, as it was, so no transport call is made. A name of one to
  nine characters passes the check: the next thing that happens is \<open>network_connect\<close>.
\<close>

theorem irc_connect_validates_name:
  "(length name = 0 \<or> 9 < length name \<longrightarrow>
      irc_connect cfg env name s = (PARAMETER_OUT_OF_RANGE, s)) \<and>
   (1 \<le> length name \<and> length name \<le> 9 \<longrightarrow>
      (\<exists>es. trace (snd (irc_connect cfg env name s)) =
            trace s @ Connect (IRC_SERVER cfg) (IRC_PORT cfg) # es))"
  by (auto simp: irc_connect_def Let_def network_connect_def network_send_def
      split: prod.splits)

theorem irc_connect_validates_name_witness:
  "irc_connect example_config (scripted_transport 0 0 []) '''' (session_in (- 1)) =
     (PARAMETER_OUT_OF_RANGE, session_in (- 1)) \<and>
   irc_connect example_config (scripted_transport 0 0 []) ''toolongnickname'' (session_in (- 1)) =
     (PARAMETER_OUT_OF_RANGE, session_in (- 1)) \<and>
   (\<exists>es. trace (snd (irc_connect example_config (scripted_transport 0 0 []) ''alice''
       (session_in (- 1)))) =
     trace (session_in (- 1)) @
     Connect (IRC_SERVER example_config) (IRC_PORT example_config) # es)"
  using irc_connect_validates_name
      [of "''''" example_config "scripted_transport 0 0 []" "session_in (- 1)"]
    irc_connect_validates_name
      [of "''toolongnickname''" example_config "scripted_transport 0 0 []" "session_in (- 1)"]
    irc_connect_validates_name
      [of "''alice''" example_config "scripted_transport 0 0 []" "session_in (- 1)"]
  by simp

text \<open>
  C7. When \<open>irc_connect\<close> returns \<open>NO_ERROR\<close>, the transport calls it made are the
  \<open>network_connect\<close> and exactly one \<open>network_send\<close>, whose payload is
  \<open>PASS *\<close>, \<open>NICK name\<close>, \<open>USER name 8 * :name\<close> and \<open>JOIN lobby\<close>, each followed
  by CR LF, in this order. (\<open>NO_ERROR\<close> is a parameter; it must differ from
  \<open>PARAMETER_OUT_OF_RANGE\<close> for the return code to tell success from rejection.)
\<close>

theorem irc_connect_single_write:
  assumes "irc_connect cfg env name s = (r, s')"
    and "r = NO_ERROR cfg"
    and "NO_ERROR cfg \<noteq> PARAMETER_OUT_OF_RANGE"
  shows "trace s' = trace s @
     [Connect (IRC_SERVER cfg) (IRC_PORT cfg),
      Send (''PASS *'' @ CRLF @ ''NICK '' @ name @ CRLF @
            ''USER '' @ name @ '' 8 * :'' @ name @ CRLF @
            ''JOIN '' @ LOBBY_CHANNEL cfg @ CRLF)]"
  using assms
  by (auto simp: irc_connect_def Let_def network_connect_def network_send_def CRLF_def
      split: prod.splits if_splits)

theorem irc_connect_single_write_witness:
  "trace (snd (irc_connect example_config (scripted_transport 0 0 []) ''alice'' (session_in (- 1)))) =
     [Connect ''irc.freenode.net'' 6667,
      Send (''PASS *'' @ CRLF @ ''NICK alice'' @ CRLF @ ''USER alice 8 * :alice'' @ CRLF @
            ''JOIN #cruce-lobby'' @ CRLF)] \<and>
   fst (irc_connect example_config (scripted_transport 0 0 []) ''alice'' (session_in (- 1))) = 0"
proof -
  have run: "irc_connect example_config (scripted_transport 0 0 []) ''alice'' (session_in (- 1)) =
      (0, \<lparr>currentRoom = - 1, trace =
        [Connect ''irc.freenode.net'' 6667,
         Send (''PASS *'' @ CRLF @ ''NICK alice'' @ CRLF @ ''USER alice 8 * :alice'' @ CRLF @
            ''JOIN #cruce-lobby'' @ CRLF)]\<rparr>)"
    by (simp add: irc_connect_def Let_def network_connect_def network_send_def CRLF_def
        example_config_def scripted_transport_def session_in_def)
  have ok: "(0::int) = NO_ERROR example_config" by (simp add: example_config_def)
  have ne: "NO_ERROR example_config \<noteq> PARAMETER_OUT_OF_RANGE"
    by (simp add: example_config_def PARAMETER_OUT_OF_RANGE_def)
  from irc_connect_single_write [OF run ok ne] show ?thesis
    by (simp add: run)
qed

text \<open>
  The earlier \<open>irc_connect\<close> has neither property: it accepts the empty name and
  spreads the handshake over four writes.
\<close>

lemma irc_connect_early_scenario:
  "irc_connect_early example_config (scripted_transport 0 0 []) '''' (session_in (- 1)) =
     (0, \<lparr>currentRoom = - 1, trace =
        [Connect ''irc.freenode.net'' 6667,
         Send (''PASS *'' @ CRLF), Send (''NICK '' @ CRLF),
         Send (''USER  8 * :'' @ CRLF), Send (''JOIN #cruce-lobby'' @ CRLF)]\<rparr>)"
  by (simp add: irc_connect_early_def Let_def network_connect_def network_send_def CRLF_def
      example_config_def scripted_transport_def session_in_def)

section \<open>Joining and leaving a room\<close>

text \<open>
  C10. \<open>irc_joinRoom\<close> (for a room number in range) and \<open>irc_leaveRoom\<close> (when a room
  is joined) assign \<open>currentRoom\<close> only after their \<open>network_send\<close> has returned
  \<open>NO_ERROR\<close>. When the send returns anything else, that code is the result and the
  state differs from the one before the call in the trace only: \<open>currentRoom\<close> is
  unchanged. When the send succeeds, \<open>currentRoom\<close> becomes the room number,
  respectively \<open>-1\<close>.
\<close>

theorem join_leave_commit_after_send:
  "(0 \<le> n \<and> n \<le> 999 \<and>
    send_result env (trace s) (''JOIN '' @ sprintf_ROOM_FORMAT cfg n @ CRLF) \<noteq> NO_ERROR cfg \<longrightarrow>
      irc_joinRoom cfg env n s =
        (send_result env (trace s) (''JOIN '' @ sprintf_ROOM_FORMAT cfg n @ CRLF),
         s\<lparr>trace := trace s @ [Send (''JOIN '' @ sprintf_ROOM_FORMAT cfg n @ CRLF)]\<rparr>)) \<and>
   (0 \<le> n \<and> n \<le> 999 \<and>
    send_result env (trace s) (''JOIN '' @ sprintf_ROOM_FORMAT cfg n @ CRLF) = NO_ERROR cfg \<longrightarrow>
      irc_joinRoom cfg env n s =
        (NO_ERROR cfg,
         s\<lparr>currentRoom := n,
           trace := trace s @ [Send (''JOIN '' @ sprintf_ROOM_FORMAT cfg n @ CRLF)]\<rparr>)) \<and>
   (0 \<le> currentRoom s \<and>
    send_result env (trace s) (''PART '' @ sprintf_ROOM_FORMAT cfg (currentRoom s) @ CRLF)
      \<noteq> NO_ERROR cfg \<longrightarrow>
      irc_leaveRoom cfg env s =
        (send_result env (trace s) (''PART '' @ sprintf_ROOM_FORMAT cfg (currentRoom s) @ CRLF),
         s\<lparr>trace := trace s @
            [Send (''PART '' @ sprintf_ROOM_FORMAT cfg (currentRoom s) @ CRLF)]\<rparr>)) \<and>
   (0 \<le> currentRoom s \<and>
    send_result env (trace s) (''PART '' @ sprintf_ROOM_FORMAT cfg (currentRoom s) @ CRLF)
      = NO_ERROR cfg \<longrightarrow>
      irc_leaveRoom cfg env s =
        (NO_ERROR cfg,
         s\<lparr>currentRoom := - 1,
           trace := trace s @
            [Send (''PART '' @ sprintf_ROOM_FORMAT cfg (currentRoom s) @ CRLF)]\<rparr>))"
  by (simp add: irc_joinRoom_def irc_leaveRoom_def Let_def network_send_def)

theorem join_leave_commit_after_send_witness:
  "irc_joinRoom example_config (scripted_transport (- 5) 0 []) 7 (session_in 3) =
     (- 5, \<lparr>currentRoom = 3, trace = [Send (''JOIN #cruce-game007'' @ CRLF)]\<rparr>) \<and>
   irc_leaveRoom example_config (scripted_transport (- 5) 0 []) (session_in 3) =
     (- 5, \<lparr>currentRoom = 3, trace = [Send (''PART #cruce-game003'' @ CRLF)]\<rparr>) \<and>
   irc_joinRoom example_config (scripted_transport 0 0 []) 7 (session_in 3) =
     (0, \<lparr>currentRoom = 7, trace = [Send (''JOIN #cruce-game007'' @ CRLF)]\<rparr>) \<and>
   irc_leaveRoom example_config (scripted_transport 0 0 []) (session_in 3) =
     (0, \<lparr>currentRoom = - 1, trace = [Send (''PART #cruce-game003'' @ CRLF)]\<rparr>)"
  using join_leave_commit_after_send
      [of 7 "scripted_transport (- 5) 0 []" "session_in 3" example_config]
    join_leave_commit_after_send
      [of 7 "scripted_transport 0 0 []" "session_in 3" example_config]
  by (simp add: fmt_03d_examples sprintf_ROOM_FORMAT_def scripted_transport_def
      session_in_def example_config_def)

section \<open>Room status\<close>

text \<open>
  What \<open>irc_toggleRoomStatus\<close> does with the response, for a room number in range,
  a successful fetch and a successful read: \<open>WAITING\<close> is looked for first, then
  \<open>PLAYING\<close>; the topic is set to the other word and \<open>NO_ERROR\<close> returned; anything
  else is \<open>TOGGLE_ROOM_STATUS_ERROR\<close>. There is no test for an unset topic.
\<close>

lemma irc_toggleRoomStatus_classifies:
  assumes "0 \<le> n" "n \<le> 999"
    and "send_result env (trace s) (''TOPIC '' @ sprintf_ROOM_FORMAT cfg n @ CRLF) = NO_ERROR cfg"
    and "read_result env (trace s @ [Send (''TOPIC '' @ sprintf_ROOM_FORMAT cfg n @ CRLF)]) =
           (readRet, recvBuffer)"
    and "0 \<le> readRet"
  shows "irc_toggleRoomStatus cfg env n s =
     (if strstr recvBuffer ''WAITING'' \<noteq> None then
        (NO_ERROR cfg,
         s\<lparr>trace := trace s @
            [Send (''TOPIC '' @ sprintf_ROOM_FORMAT cfg n @ CRLF), Read,
             Send (''TOPIC '' @ sprintf_ROOM_FORMAT cfg n @ '' PLAYING'' @ CRLF)]\<rparr>)
      else if strstr recvBuffer ''PLAYING'' \<noteq> None then
        (NO_ERROR cfg,
         s\<lparr>trace := trace s @
            [Send (''TOPIC '' @ sprintf_ROOM_FORMAT cfg n @ CRLF), Read,
             Send (''TOPIC '' @ sprintf_ROOM_FORMAT cfg n @ '' WAITING'' @ CRLF)]\<rparr>)
      else
        (TOGGLE_ROOM_STATUS_ERROR cfg,
         s\<lparr>trace := trace s @
            [Send (''TOPIC '' @ sprintf_ROOM_FORMAT cfg n @ CRLF), Read]\<rparr>))"
  using assms
  by (simp add: irc_toggleRoomStatus_def Let_def network_send_def network_read_def)

lemma irc_toggleRoomStatus_keeps_room:
  "currentRoom (snd (irc_toggleRoomStatus cfg env n s)) = currentRoom s"
  by (auto simp: irc_toggleRoomStatus_def Let_def network_send_def network_read_def
      split: prod.splits)

text \<open>
  The earlier \<open>irc_toggleRoomStatus\<close> returns 0 exactly for a successful fetch and read
  of a response with the marker \<open>:No topic is set\<close> (when \<open>NO_ERROR\<close> is 0), and the
  only transport calls it makes are the fetch and the read.
\<close>

lemma irc_toggleRoomStatus_early_unset:
  assumes "NO_ERROR cfg = 0"
  shows "fst (irc_toggleRoomStatus_early cfg env n s) = 0 \<longleftrightarrow>
     send_result env (trace s) (''TOPIC '' @ sprintf_ROOM_FORMAT cfg n @ CRLF) = 0 \<and>
     fst (read_result env (trace s @ [Send (''TOPIC '' @ sprintf_ROOM_FORMAT cfg n @ CRLF)])) = 0 \<and>
     strstr (snd (read_result env
        (trace s @ [Send (''TOPIC '' @ sprintf_ROOM_FORMAT cfg n @ CRLF)])))
        '':No topic is set'' \<noteq> None"
  using assms
  by (auto simp: irc_toggleRoomStatus_early_def Let_def network_send_def network_read_def
      split: prod.splits)

lemma irc_toggleRoomStatus_early_fetch_only:
  "\<exists>es. trace (snd (irc_toggleRoomStatus_early cfg env n s)) = trace s @ es \<and>
        set es \<subseteq> {Send (''TOPIC '' @ sprintf_ROOM_FORMAT cfg n @ CRLF), Read}"
  by (auto simp: irc_toggleRoomStatus_early_def Let_def network_send_def network_read_def
      split: prod.splits)

text \<open>
  C1, at the response of a server for a channel without topic (room 0). The claim
  has the status Unset returned; \<open>irc_toggleRoomStatus\<close> returns
  \<open>TOGGLE_ROOM_STATUS_ERROR\<close>, where its own comment promises 0 and the earlier
  version of the function returns 0.
\<close>

theorem toggle_no_topic_scenario:
  "irc_toggleRoomStatus example_config (scripted_transport 0 0 no_topic_reply) 0 (session_in (- 1)) =
     (TOGGLE_ROOM_STATUS_ERROR example_config,
      \<lparr>currentRoom = - 1, trace = [Send (''TOPIC #cruce-game000'' @ CRLF), Read]\<rparr>) \<and>
   irc_toggleRoomStatus_early example_config (scripted_transport 0 0 no_topic_reply) 0
       (session_in (- 1)) =
     (0, \<lparr>currentRoom = - 1, trace = [Send (''TOPIC #cruce-game000'' @ CRLF), Read]\<rparr>)"
  by (simp add: irc_toggleRoomStatus_def irc_toggleRoomStatus_early_def Let_def
      network_send_def network_read_def sprintf_ROOM_FORMAT_def fmt_03d_examples
      no_topic_reply_markers scripted_transport_def session_in_def example_config_def)

section \<open>Finding a free room\<close>

text \<open>The loop leaves \<open>currentRoom\<close> alone when the function it calls does.\<close>

lemma getAvailableRoom_loop_keeps_room:
  assumes "\<And>j t. currentRoom (snd (toggle j t)) = currentRoom t"
  shows "currentRoom (snd (getAvailableRoom_loop toggle i s)) = currentRoom s"
  using assms
proof (induction toggle i s rule: getAvailableRoom_loop.induct)
  case (1 toggle i s)
  show ?case
  proof (cases "i \<le> 999")
    case False
    then show ?thesis by (simp add: getAvailableRoom_loop.simps [of toggle i s])
  next
    case True
    obtain u t where ut: "toggle i s = (u, t)" by (cases "toggle i s")
    have t: "currentRoom t = currentRoom s" using "1.prems" [of i s] ut by simp
    show ?thesis
    proof (cases "u = 0")
      case True
      with \<open>i \<le> 999\<close> ut t show ?thesis
        by (simp add: getAvailableRoom_loop.simps [of toggle i s])
    next
      case False
      with "1.IH" [OF \<open>i \<le> 999\<close> ut [symmetric] refl False] "1.prems" have
        "currentRoom (snd (getAvailableRoom_loop toggle (i + 1) t)) = currentRoom t"
        by simp
      with False \<open>i \<le> 999\<close> ut t show ?thesis
        by (simp add: getAvailableRoom_loop.simps [of toggle i s])
    qed
  qed
qed

lemma irc_getAvailableRoom_keeps_room:
  "currentRoom (snd (irc_getAvailableRoom cfg env s)) = currentRoom s"
  unfolding irc_getAvailableRoom_def
  by (rule getAvailableRoom_loop_keeps_room) (rule irc_toggleRoomStatus_keeps_room)

text \<open>When no call returns 0, the loop runs to the end and returns \<open>-1\<close>.\<close>

lemma getAvailableRoom_loop_all_used:
  assumes "\<And>j t. fst (toggle j t) \<noteq> 0"
  shows "fst (getAvailableRoom_loop toggle i s) = - 1"
  using assms
proof (induction toggle i s rule: getAvailableRoom_loop.induct)
  case (1 toggle i s)
  show ?case
  proof (cases "i \<le> 999")
    case False
    then show ?thesis by (simp add: getAvailableRoom_loop.simps [of toggle i s])
  next
    case True
    obtain u t where ut: "toggle i s = (u, t)" by (cases "toggle i s")
    have u: "u \<noteq> 0" using "1.prems" [of i s] ut by simp
    from "1.IH" [OF True ut [symmetric] refl u] "1.prems"
    have "fst (getAvailableRoom_loop toggle (i + 1) t) = - 1" by simp
    with True ut u show ?thesis
      by (simp add: getAvailableRoom_loop.simps [of toggle i s])
  qed
qed

text \<open>
  The loop returns the least room number whose probe returns 0, and \<open>-1\<close> exactly
  when the probes of all rooms 0 to 999 return something else.
\<close>

lemma getAvailableRoom_loop_least:
  assumes "0 \<le> i" "i \<le> 1000"
    and "s = state_before toggle s0 (nat i)"
    and "\<forall>j. 0 \<le> j \<and> j < i \<longrightarrow> probe toggle s0 j \<noteq> 0"
  shows "(fst (getAvailableRoom_loop toggle i s) = - 1 \<and>
          (\<forall>j. 0 \<le> j \<and> j \<le> 999 \<longrightarrow> probe toggle s0 j \<noteq> 0)) \<or>
         (0 \<le> fst (getAvailableRoom_loop toggle i s) \<and>
          fst (getAvailableRoom_loop toggle i s) \<le> 999 \<and>
          probe toggle s0 (fst (getAvailableRoom_loop toggle i s)) = 0 \<and>
          (\<forall>j. 0 \<le> j \<and> j < fst (getAvailableRoom_loop toggle i s) \<longrightarrow>
               probe toggle s0 j \<noteq> 0))"
  using assms
proof (induction toggle i s rule: getAvailableRoom_loop.induct)
  case (1 toggle i s)
  show ?case
  proof (cases "i \<le> 999")
    case False
    then have stop: "getAvailableRoom_loop toggle i s = (- 1, s)"
      by (simp add: getAvailableRoom_loop.simps [of toggle i s])
    from False "1.prems" have "\<forall>j. 0 \<le> j \<and> j \<le> 999 \<longrightarrow> probe toggle s0 j \<noteq> 0"
      by auto
    then show ?thesis by (simp add: stop)
  next
    case True
    obtain u t where ut: "toggle i s = (u, t)" by (cases "toggle i s")
    have pi: "probe toggle s0 i = u"
      using ut "1.prems" by (simp add: probe_def)
    show ?thesis
    proof (cases "u = 0")
      case True
      with \<open>i \<le> 999\<close> ut have found: "getAvailableRoom_loop toggle i s = (i, t)"
        by (simp add: getAvailableRoom_loop.simps [of toggle i s])
      from True pi "1.prems" (1,4) \<open>i \<le> 999\<close> show ?thesis
        by (simp add: found)
    next
      case False
      have nat_step: "nat (i + 1) = Suc (nat i)" using "1.prems" by simp
      have t: "t = state_before toggle s0 (nat (i + 1))"
        using ut "1.prems" by (simp add: nat_step)
      have below: "\<forall>j. 0 \<le> j \<and> j < i + 1 \<longrightarrow> probe toggle s0 j \<noteq> 0"
      proof (intro allI impI)
        fix j assume j: "0 \<le> j \<and> j < i + 1"
        show "probe toggle s0 j \<noteq> 0"
        proof (cases "j = i")
          case True
          with pi False show ?thesis by simp
        next
          case False
          with j "1.prems" show ?thesis by simp
        qed
      qed
      have "0 \<le> i + 1" "i + 1 \<le> 1000" using "1.prems" \<open>i \<le> 999\<close> by simp_all
      from "1.IH" [OF \<open>i \<le> 999\<close> ut [symmetric] refl False this t below]
      have IH: "(fst (getAvailableRoom_loop toggle (i + 1) t) = - 1 \<and>
          (\<forall>j. 0 \<le> j \<and> j \<le> 999 \<longrightarrow> probe toggle s0 j \<noteq> 0)) \<or>
         (0 \<le> fst (getAvailableRoom_loop toggle (i + 1) t) \<and>
          fst (getAvailableRoom_loop toggle (i + 1) t) \<le> 999 \<and>
          probe toggle s0 (fst (getAvailableRoom_loop toggle (i + 1) t)) = 0 \<and>
          (\<forall>j. 0 \<le> j \<and> j < fst (getAvailableRoom_loop toggle (i + 1) t) \<longrightarrow>
               probe toggle s0 j \<noteq> 0))" .
      have unfold: "getAvailableRoom_loop toggle i s = getAvailableRoom_loop toggle (i + 1) t"
        using False \<open>i \<le> 999\<close> ut by (simp add: getAvailableRoom_loop.simps [of toggle i s])
      show ?thesis unfolding unfold by (rule IH)
    qed
  qed
qed

text \<open>The loop makes no transport call of its own.\<close>

lemma getAvailableRoom_loop_trace:
  assumes "\<And>j t. \<exists>es. trace (snd (toggle j t)) = trace t @ es \<and> set es \<subseteq> E"
  shows "\<exists>es. trace (snd (getAvailableRoom_loop toggle i s)) = trace s @ es \<and> set es \<subseteq> E"
  using assms
proof (induction toggle i s rule: getAvailableRoom_loop.induct)
  case (1 toggle i s)
  show ?case
  proof (cases "i \<le> 999")
    case False
    then show ?thesis by (simp add: getAvailableRoom_loop.simps [of toggle i s])
  next
    case True
    obtain u t where ut: "toggle i s = (u, t)" by (cases "toggle i s")
    from "1.prems" [of i s] ut obtain es where es: "trace t = trace s @ es" "set es \<subseteq> E"
      by auto
    show ?thesis
    proof (cases "u = 0")
      case True
      with \<open>i \<le> 999\<close> ut es show ?thesis
        by (simp add: getAvailableRoom_loop.simps [of toggle i s])
    next
      case False
      from "1.IH" [OF \<open>i \<le> 999\<close> ut [symmetric] refl False] "1.prems"
      obtain es' where es': "trace (snd (getAvailableRoom_loop toggle (i + 1) t)) = trace t @ es'"
        "set es' \<subseteq> E"
        by blast
      have "getAvailableRoom_loop toggle i s = getAvailableRoom_loop toggle (i + 1) t"
        using False \<open>i \<le> 999\<close> ut by (simp add: getAvailableRoom_loop.simps [of toggle i s])
      with es es' have "trace (snd (getAvailableRoom_loop toggle i s)) = trace s @ (es @ es')"
        "set (es @ es') \<subseteq> E"
        by simp_all
      then show ?thesis by blast
    qed
  qed
qed

text \<open>
  With the earlier \<open>irc_toggleRoomStatus\<close> a probe returning 0 is a room whose topic
  is unset, so the earlier \<open>irc_getAvailableRoom\<close> returns the least free room, or
  \<open>-1\<close> when none of the thousand is free.
\<close>

lemma irc_getAvailableRoom_early_least:
  "(fst (irc_getAvailableRoom_early cfg env s) = - 1 \<and>
      (\<forall>j. 0 \<le> j \<and> j \<le> 999 \<longrightarrow> probe (irc_toggleRoomStatus_early cfg env) s j \<noteq> 0)) \<or>
   (0 \<le> fst (irc_getAvailableRoom_early cfg env s) \<and>
      fst (irc_getAvailableRoom_early cfg env s) \<le> 999 \<and>
      probe (irc_toggleRoomStatus_early cfg env) s (fst (irc_getAvailableRoom_early cfg env s)) = 0 \<and>
      (\<forall>j. 0 \<le> j \<and> j < fst (irc_getAvailableRoom_early cfg env s) \<longrightarrow>
           probe (irc_toggleRoomStatus_early cfg env) s j \<noteq> 0))"
  unfolding irc_getAvailableRoom_early_def
  by (rule getAvailableRoom_loop_least) simp_all

lemma irc_getAvailableRoom_early_fetch_only:
  "\<exists>es. trace (snd (irc_getAvailableRoom_early cfg env s)) = trace s @ es \<and>
        set es \<subseteq> insert Read
          {e. \<exists>j. e = Send (''TOPIC '' @ sprintf_ROOM_FORMAT cfg j @ CRLF)}"
  unfolding irc_getAvailableRoom_early_def
proof (rule getAvailableRoom_loop_trace)
  fix j t
  from irc_toggleRoomStatus_early_fetch_only [of cfg env j t]
  show "\<exists>es. trace (snd (irc_toggleRoomStatus_early cfg env j t)) = trace t @ es \<and>
        set es \<subseteq> insert Read {e. \<exists>j. e = Send (''TOPIC '' @ sprintf_ROOM_FORMAT cfg j @ CRLF)}"
    by blast
qed

text \<open>
  With the current \<open>irc_toggleRoomStatus\<close> a probe returning 0 is a room whose topic
  held \<open>WAITING\<close> or \<open>PLAYING\<close> and has just been toggled (for \<open>NO_ERROR\<close> 0 and
  \<open>TOGGLE_ROOM_STATUS_ERROR\<close> not 0): the current \<open>irc_getAvailableRoom\<close> returns the
  least room in use.
\<close>

lemma irc_toggleRoomStatus_zero_iff:
  assumes "NO_ERROR cfg = 0" and "TOGGLE_ROOM_STATUS_ERROR cfg \<noteq> 0"
  shows "fst (irc_toggleRoomStatus cfg env n s) = 0 \<longleftrightarrow>
     0 \<le> n \<and> n \<le> 999 \<and>
     send_result env (trace s) (''TOPIC '' @ sprintf_ROOM_FORMAT cfg n @ CRLF) = 0 \<and>
     0 \<le> fst (read_result env (trace s @ [Send (''TOPIC '' @ sprintf_ROOM_FORMAT cfg n @ CRLF)])) \<and>
     (strstr (snd (read_result env
        (trace s @ [Send (''TOPIC '' @ sprintf_ROOM_FORMAT cfg n @ CRLF)]))) ''WAITING'' \<noteq> None \<or>
      strstr (snd (read_result env
        (trace s @ [Send (''TOPIC '' @ sprintf_ROOM_FORMAT cfg n @ CRLF)]))) ''PLAYING'' \<noteq> None)"
  using assms
  by (auto simp: irc_toggleRoomStatus_def Let_def network_send_def network_read_def
      PARAMETER_OUT_OF_RANGE_def split: prod.splits)

lemma irc_getAvailableRoom_least:
  "(fst (irc_getAvailableRoom cfg env s) = - 1 \<and>
      (\<forall>j. 0 \<le> j \<and> j \<le> 999 \<longrightarrow> probe (irc_toggleRoomStatus cfg env) s j \<noteq> 0)) \<or>
   (0 \<le> fst (irc_getAvailableRoom cfg env s) \<and>
      fst (irc_getAvailableRoom cfg env s) \<le> 999 \<and>
      probe (irc_toggleRoomStatus cfg env) s (fst (irc_getAvailableRoom cfg env s)) = 0 \<and>
      (\<forall>j. 0 \<le> j \<and> j < fst (irc_getAvailableRoom cfg env s) \<longrightarrow>
           probe (irc_toggleRoomStatus cfg env) s j \<noteq> 0))"
  unfolding irc_getAvailableRoom_def
  by (rule getAvailableRoom_loop_least) simp_all

text \<open>
  With the current \<open>irc_toggleRoomStatus\<close> a room without topic is never reported
  as free: against a server on which every room is free the probe is never 0.
\<close>

lemma irc_toggleRoomStatus_no_topic_used:
  "fst (irc_toggleRoomStatus example_config (scripted_transport 0 0 no_topic_reply) j t) \<noteq> 0"
  by (simp add: irc_toggleRoomStatus_def Let_def network_send_def network_read_def
      no_topic_reply_markers scripted_transport_def example_config_def
      PARAMETER_OUT_OF_RANGE_def)

lemma irc_getAvailableRoom_all_free:
  "fst (irc_getAvailableRoom example_config (scripted_transport 0 0 no_topic_reply) s) = - 1"
  unfolding irc_getAvailableRoom_def
  by (rule getAvailableRoom_loop_all_used) (rule irc_toggleRoomStatus_no_topic_used)

text \<open>
  C2, at two servers. On the first, room 0 has the topic \<open>WAITING\<close>: the claim has
  the scan skip it without changing any topic; \<open>irc_getAvailableRoom\<close> returns 0
  and has set the topic of room 0 to \<open>PLAYING\<close>. On the second, every room is free:
  the claim has 0 returned; \<open>irc_getAvailableRoom\<close> returns \<open>-1\<close>. The earlier
  version returns 0 there.
\<close>

theorem getAvailableRoom_waiting_scenario:
  "irc_getAvailableRoom example_config (scripted_transport 0 0 waiting_reply) (session_in (- 1)) =
     (0, \<lparr>currentRoom = - 1, trace =
        [Send (''TOPIC #cruce-game000'' @ CRLF), Read,
         Send (''TOPIC #cruce-game000 PLAYING'' @ CRLF)]\<rparr>) \<and>
   fst (irc_getAvailableRoom example_config (scripted_transport 0 0 no_topic_reply)
       (session_in (- 1))) = - 1 \<and>
   irc_getAvailableRoom_early example_config (scripted_transport 0 0 no_topic_reply)
       (session_in (- 1)) =
     (0, \<lparr>currentRoom = - 1, trace = [Send (''TOPIC #cruce-game000'' @ CRLF), Read]\<rparr>)"
  by (simp add: irc_getAvailableRoom_all_free)
    (simp add: irc_getAvailableRoom_def irc_getAvailableRoom_early_def
      getAvailableRoom_loop.simps [of _ 0]
      irc_toggleRoomStatus_def irc_toggleRoomStatus_early_def Let_def
      network_send_def network_read_def sprintf_ROOM_FORMAT_def fmt_03d_examples
      no_topic_reply_markers waiting_reply_markers
      scripted_transport_def session_in_def example_config_def)

section \<open>Creating a room\<close>

text \<open>
  \<open>irc_createRoom\<close> changes the trace only: it has no assignment to \<open>currentRoom\<close>.
\<close>

lemma irc_createRoom_keeps_room:
  "currentRoom (snd (irc_createRoom cfg env s)) = currentRoom s"
proof -
  obtain roomNumber s1 where scan: "irc_getAvailableRoom cfg env s = (roomNumber, s1)"
    by (cases "irc_getAvailableRoom cfg env s")
  have "currentRoom s1 = currentRoom s"
    using irc_getAvailableRoom_keeps_room [of cfg env s] scan by simp
  with scan show ?thesis
    by (simp add: irc_createRoom_def Let_def network_send_def)
qed

text \<open>
  C3, on a server where room 0 has the topic \<open>WAITING\<close>. With no room joined,
  \<open>irc_createRoom\<close> sends JOIN and TOPIC for room 0 and returns 0, and the claim has
  \<open>currentRoom\<close> set to 0 then; in the code \<open>currentRoom\<close> is still \<open>-1\<close>, where
  \<open>irc_joinRoom\<close> assigns it after the same JOIN. With the session in room 3, the
  claim has the call fail before any probing; the code returns \<open>-1\<close> only after the
  scan, whose probe of room 0 is in the trace.
\<close>

theorem createRoom_currentRoom_scenario:
  "irc_createRoom example_config (scripted_transport 0 0 waiting_reply) (session_in (- 1)) =
     (0, \<lparr>currentRoom = - 1, trace =
        [Send (''TOPIC #cruce-game000'' @ CRLF), Read,
         Send (''TOPIC #cruce-game000 PLAYING'' @ CRLF),
         Send (''JOIN #cruce-game000'' @ CRLF),
         Send (''TOPIC #cruce-game000 WAITING'' @ CRLF)]\<rparr>) \<and>
   irc_joinRoom example_config (scripted_transport 0 0 waiting_reply) 0 (session_in (- 1)) =
     (0, \<lparr>currentRoom = 0, trace = [Send (''JOIN #cruce-game000'' @ CRLF)]\<rparr>) \<and>
   irc_createRoom example_config (scripted_transport 0 0 waiting_reply) (session_in 3) =
     (- 1, \<lparr>currentRoom = 3, trace =
        [Send (''TOPIC #cruce-game000'' @ CRLF), Read,
         Send (''TOPIC #cruce-game000 PLAYING'' @ CRLF)]\<rparr>)"
  by (simp add: irc_createRoom_def irc_joinRoom_def irc_getAvailableRoom_def
      getAvailableRoom_loop.simps [of _ 0]
      irc_toggleRoomStatus_def Let_def
      network_send_def network_read_def sprintf_ROOM_FORMAT_def fmt_03d_examples
      waiting_reply_markers
      scripted_transport_def session_in_def example_config_def)

section \<open>Names and invitations\<close>

text \<open>
  \<open>irc_getNames\<close> for the room, with no room joined: NULL, and nothing is sent.
\<close>

lemma irc_getNames_not_in_room:
  "isRoom \<noteq> 0 \<Longrightarrow> currentRoom s = - 1 \<Longrightarrow> irc_getNames cfg env isRoom s = (Value None, s)"
  by (simp add: irc_getNames_def)

text \<open>
  \<open>irc_getNames\<close> for the lobby, after a successful send and read: the result is the
  response from its first colon on, the colon included, as one string; a response
  without colon is not handled.
\<close>

lemma irc_getNames_lobby:
  assumes "send_result env (trace s) (''NAMES '' @ LOBBY_CHANNEL cfg @ CRLF) = NO_ERROR cfg"
    and "read_result env (trace s @ [Send (''NAMES '' @ LOBBY_CHANNEL cfg @ CRLF)]) =
           (readRet, buffer)"
    and "0 \<le> readRet"
  shows "irc_getNames cfg env 0 s =
     ((case strchr buffer (CHR '':'') of
         None \<Rightarrow> UndefinedBehaviour
       | Some i \<Rightarrow> Value (Some (drop i buffer))),
      s\<lparr>trace := trace s @ [Send (''NAMES '' @ LOBBY_CHANNEL cfg @ CRLF), Read]\<rparr>)"
  using assms
  by (simp add: irc_getNames_def Let_def network_send_def network_read_def
      split: option.splits)

text \<open>
  C9, at a response without colon. The claim has \<open>irc_getNames\<close> fail with a
  protocol error; the code passes the NULL that \<open>strchr\<close> returns to \<open>strlen\<close>. At a
  response with a colon, the claim has the text after the colon returned as tokens;
  the code returns one string that starts with the colon.
\<close>

theorem getNames_no_colon_scenario:
  "irc_getNames example_config (scripted_transport 0 0 reply_without_colon) 0 (session_in (- 1)) =
     (UndefinedBehaviour, \<lparr>currentRoom = - 1, trace =
        [Send (''NAMES #cruce-lobby'' @ CRLF), Read]\<rparr>) \<and>
   irc_getNames example_config (scripted_transport 0 0 lobby_names_reply) 0 (session_in (- 1)) =
     (Value (Some '': alice bobby''), \<lparr>currentRoom = - 1, trace =
        [Send (''NAMES #cruce-lobby'' @ CRLF), Read]\<rparr>) \<and>
   spec_names_list reply_without_colon = None \<and>
   spec_names_list lobby_names_reply = Some [''alice'', ''bobby'']"
  by (simp add: irc_getNames_def Let_def network_send_def network_read_def
      lobby_names_reply_def reply_without_colon_def CRLF_def spec_names_list_def
      scripted_transport_def session_in_def example_config_def)

text \<open>
  \<open>irc_invite\<close> decides by \<open>strstr\<close> over the whole names string: the nickname is
  accepted when it occurs anywhere in it.
\<close>

lemma irc_invite_matches_substring:
  assumes "currentRoom s \<noteq> - 1"
    and "irc_getNames cfg env 0 s = (Value (Some channelNames), s1)"
  shows "(strstr channelNames nickname = None \<longrightarrow>
            irc_invite cfg env nickname s = (Value (- 3), s1)) \<and>
         (strstr channelNames nickname \<noteq> None \<longrightarrow>
            trace (snd (irc_invite cfg env nickname s)) =
              trace s1 @ [Send (''INVITE '' @ sprintf_ROOM_FORMAT cfg (currentRoom s1) @
                                '' '' @ nickname @ CRLF)])"
  using assms
  by (auto simp: irc_invite_def Let_def network_send_def)

text \<open>
  C4, with room 0 joined and the lobby holding \<open>alice\<close> and \<open>bobby\<close>. The claim has
  the invitation of \<open>bob\<close> fail, since \<open>bob\<close> is none of the names; \<open>irc_invite\<close>
  returns 0 and has sent the INVITE.
\<close>

theorem invite_substring_scenario:
  "irc_invite example_config (scripted_transport 0 0 lobby_names_reply) ''bob'' (session_in 0) =
     (Value 0, \<lparr>currentRoom = 0, trace =
        [Send (''NAMES #cruce-lobby'' @ CRLF), Read,
         Send (''INVITE #cruce-game000 bob'' @ CRLF)]\<rparr>) \<and>
   spec_names_list lobby_names_reply = Some [''alice'', ''bobby'']"
  by (simp add: irc_invite_def irc_getNames_def Let_def network_send_def network_read_def
      sprintf_ROOM_FORMAT_def fmt_03d_examples lobby_names_reply_def CRLF_def
      spec_names_list_def
      scripted_transport_def session_in_def example_config_def)

section \<open>Parsing a message\<close>

text \<open>
  C8. For every line that does not begin with a colon (the empty line included),
  \<open>getNextMessage\<close> reads the line and then computes with \<open>prefixEnd\<close>, which it has
  not assigned: the result is undefined, whatever the rest of the line is.
\<close>

theorem getNextMessage_without_prefix_undefined:
  assumes "readLine_result env (trace s) = str"
    and "str = [] \<or> hd str \<noteq> CHR '':''"
  shows "getNextMessage env s = (UndefinedBehaviour, s\<lparr>trace := trace s @ [ReadLine]\<rparr>)"
  using assms
  by (auto simp: getNextMessage_def network_readLine_def parseLine_def
      getNextMessage_slices_def)

theorem getNextMessage_without_prefix_undefined_witness:
  "getNextMessage (scripted_transport 0 0 (''PING :irc.example.net'' @ CRLF)) (session_in (- 1)) =
     (UndefinedBehaviour, \<lparr>currentRoom = - 1, trace = [ReadLine]\<rparr>)"
proof -
  have r: "readLine_result (scripted_transport 0 0 (''PING :irc.example.net'' @ CRLF))
      (trace (session_in (- 1))) = ''PING :irc.example.net'' @ CRLF"
    by (simp add: scripted_transport_def)
  have h: "''PING :irc.example.net'' @ CRLF = [] \<or>
      hd (''PING :irc.example.net'' @ CRLF) \<noteq> CHR '':''"
    by simp
  from getNextMessage_without_prefix_undefined [OF r h] show ?thesis
    by (simp add: session_in_def)
qed

text \<open>
  C5, at the line of the claim, as it stands and with a line feed or CR LF at its
  end. The claim has the prefix \<open>nick!user@host\<close> and the trailing \<open>hello there\<close>.
  The parser yields the prefix without its last character in all three cases
  (\<open>prefixEnd\<close> is already on the last character of the prefix when
  \<open>prefixLen = prefixEnd - str - 1\<close> is computed), the command \<open>PRIVMSG\<close>, and as
  trailing the whole rest of the line after the command, less its last character.
\<close>

theorem parse_privmsg_scenario:
  "parseLine '':nick!user@host PRIVMSG #room :hello there'' =
     Value \<lparr>prefix = ''nick!user@hos'', command = ''PRIVMSG'',
            trailing = ''#room :hello ther''\<rparr> \<and>
   parseLine ('':nick!user@host PRIVMSG #room :hello there'' @ [CHR 0x0A]) =
     Value \<lparr>prefix = ''nick!user@hos'', command = ''PRIVMSG'',
            trailing = ''#room :hello there''\<rparr> \<and>
   parseLine ('':nick!user@host PRIVMSG #room :hello there'' @ CRLF) =
     Value \<lparr>prefix = ''nick!user@hos'', command = ''PRIVMSG'',
            trailing = ''#room :hello there'' @ [CHR 0x0D]\<rparr>"
  by (simp add: parseLine_def getNextMessage_slices_def Let_def CRLF_def)

text \<open>The same through \<open>getNextMessage\<close>, the line coming from the transport.\<close>

lemma getNextMessage_privmsg_scenario:
  "fst (getNextMessage
     (scripted_transport 0 0 ('':nick!user@host PRIVMSG #room :hello there'' @ [CHR 0x0A]))
     (session_in (- 1))) =
     Value \<lparr>prefix = ''nick!user@hos'', command = ''PRIVMSG'',
            trailing = ''#room :hello there''\<rparr> \<and>
   fst (getNextMessage
     (scripted_transport 0 0 ('':nick!user@host PRIVMSG #room :hello there'' @ CRLF))
     (session_in (- 1))) =
     Value \<lparr>prefix = ''nick!user@hos'', command = ''PRIVMSG'',
            trailing = ''#room :hello there'' @ [CHR 0x0D]\<rparr>"
  by (simp add: getNextMessage_def network_readLine_def parseLine_def
      getNextMessage_slices_def Let_def CRLF_def scripted_transport_def session_in_def)

end
